theory Spec2Isabelle
  imports Main "HOL-Library.Sublist"
begin

section \<open>Values exchanged with clients, the clock and the object store\<close>

text \<open>
  A JSON document. The server stores and returns \<open>gist_metadata\<close> and
  \<open>version_history\<close> without looking inside them. A JSON object (a Python
  \<open>dict\<close>) is a list of key-value pairs; numbers are the integers.
\<close>

datatype json =
    JNull
  | JBool bool
  | JInt int
  | JStr string
  | JList "json list"
  | JDict "(string \<times> json) list"

type_synonym dict = "(string \<times> json) list"

text \<open>
  A naive \<open>datetime\<close> (no \<open>tzinfo\<close>) is the number of microseconds between
  1970-01-01T00:00:00 and its wall-clock reading; comparison of naive datetimes is
  comparison of these numbers. \<open>datetime.min\<close> is 0001-01-01T00:00:00 and
  \<open>datetime.max\<close> is 9999-12-31T23:59:59.999999.
\<close>

type_synonym datetime = int

definition datetime_min :: datetime where
  "datetime_min = - 62135596800000000"

definition datetime_max :: datetime where
  "datetime_max = 253402300799999999"

text \<open>
  What \<open>datetime.fromisoformat\<close> returns: the wall-clock reading and, when the
  string carried an offset, \<open>tzinfo\<close> as that offset from UTC in microseconds.
\<close>

record pydatetime =
  wall :: datetime
  tzinfo :: "int option"

text \<open>
  The exceptions that leave a request handler. \<open>HTTPException\<close> carries the
  status code and the detail string the handler chose; the others are Python
  exceptions that no handler catches: \<open>ValueError\<close> and \<open>OverflowError\<close>
  from \<open>datetime\<close>, \<open>DBAPIError\<close> and \<open>IntegrityError\<close> from the
  database, and \<open>BotoCoreError\<close>, the botocore exceptions that are not a
  \<open>ClientError\<close> (\<open>EndpointConnectionError\<close> when the object store cannot
  be reached, for one).
\<close>

datatype exn =
    HTTPException nat string
  | ValueError
  | OverflowError
  | DBAPIError
  | IntegrityError
  | BotoCoreError

text \<open>
  \<open>dt.astimezone(timezone.utc).replace(tzinfo=None)\<close> for an aware datetime with
  offset \<open>off\<close>: the UTC reading, or \<open>OverflowError\<close> when that reading is
  outside the range of \<open>datetime\<close>.
\<close>

definition astimezone_utc :: "datetime \<Rightarrow> int \<Rightarrow> exn + datetime" where
  "astimezone_utc w off =
     (let u = w - off
      in if u < datetime_min \<or> datetime_max < u then Inl OverflowError else Inr u)"

section \<open>storage.py\<close>

text \<open>
  The only provider failure \<open>storage.py\<close> handles is botocore's
  \<open>ClientError\<close>. The boto3 client is a record of the three calls the class
  makes; each call either raises \<open>ClientError\<close> (\<open>Inl\<close>) or returns.  A
  presigned POST is the dictionary boto3 documents, with the keys \<open>url\<close> and
  \<open>fields\<close> (here \<open>form_fields\<close>); being non-empty and holding
  \<open>url\<close>, it passes the test \<open>response and 'url' in response\<close> of
  \<open>generate_presigned_post\<close>.
\<close>

datatype botocore_error = ClientError

record presigned_post =
  url :: string
  form_fields :: "(string \<times> string) list"

record s3_client =
  s3_generate_presigned_post ::
    "string \<Rightarrow> string \<Rightarrow> int \<times> int \<Rightarrow> int \<Rightarrow> botocore_error + presigned_post"
  s3_generate_presigned_url :: "string \<Rightarrow> string \<Rightarrow> int \<Rightarrow> botocore_error + string"
  s3_delete_object :: "string \<Rightarrow> string \<Rightarrow> botocore_error + unit"

record Storage =
  bucket_name :: string
  endpoint_url :: "string option"
  public_endpoint_url :: "string option"
  s3_client :: s3_client

text \<open>Python's \<open>sub in s\<close> on strings.\<close>

fun str_in :: "string \<Rightarrow> string \<Rightarrow> bool" where
  "str_in sub [] = (sub = [])"
| "str_in sub (c # cs) = (prefix sub (c # cs) \<or> str_in sub cs)"

text \<open>
  Python's \<open>s.replace(old, new)\<close>: every non-overlapping occurrence of \<open>old\<close>,
  found from the left, becomes \<open>new\<close>; an empty \<open>old\<close> matches before every
  character and at the end.
\<close>

function str_replace :: "string \<Rightarrow> string \<Rightarrow> string \<Rightarrow> string" where
  "str_replace old new s =
     (if old = [] then new @ concat (map (\<lambda>c. c # new) s)
      else (case s of
              [] \<Rightarrow> []
            | c # cs \<Rightarrow>
                if prefix old s then new @ str_replace old new (drop (length old) s)
                else c # str_replace old new cs))"
  by pat_completeness auto
termination
  by (relation "measure (\<lambda>(old, new, s). length s)") auto

declare str_replace.simps [simp del]

definition replace_endpoint :: "Storage \<Rightarrow> string \<Rightarrow> string" where
  "replace_endpoint self u =
     (case endpoint_url self of
        None \<Rightarrow> u
      | Some e \<Rightarrow>
          (case public_endpoint_url self of
             None \<Rightarrow> u
           | Some p \<Rightarrow>
               if e \<noteq> [] \<and> p \<noteq> [] \<and> str_in e u then str_replace e p u else u))"

definition generate_presigned_post :: "Storage \<Rightarrow> string \<Rightarrow> int \<Rightarrow> presigned_post option" where
  "generate_presigned_post self key max_size_bytes =
     (case s3_generate_presigned_post (s3_client self) (bucket_name self) key
             (0, max_size_bytes) 3600 of
        Inl ClientError \<Rightarrow> None
      | Inr response \<Rightarrow> Some (response\<lparr>url := replace_endpoint self (url response)\<rparr>))"

definition generate_presigned_url :: "Storage \<Rightarrow> string \<Rightarrow> string option" where
  "generate_presigned_url self key =
     (case s3_generate_presigned_url (s3_client self) (bucket_name self) key 3600 of
        Inl ClientError \<Rightarrow> None
      | Inr response \<Rightarrow>
          if response \<noteq> [] then Some (replace_endpoint self response) else None)"

text \<open>
  \<open>Storage.delete\<close>. The bucket is the set of keys that hold an object; a
  \<open>delete_object\<close> that returns has removed the key, one that raises has not.
  Here \<open>delete_object\<close> returns or raises \<open>ClientError\<close>; the exceptions
  that \<open>Storage.delete\<close> does not catch are added in
  \<open>storage_delete_exn\<close> below.
\<close>

definition storage_delete :: "Storage \<Rightarrow> string \<Rightarrow> string set \<Rightarrow> bool \<times> string set" where
  "storage_delete self key objects =
     (case s3_delete_object (s3_client self) (bucket_name self) key of
        Inl ClientError \<Rightarrow> (False, objects)
      | Inr _ \<Rightarrow> (True, objects - {key}))"

section \<open>schemas.py and models.py\<close>

record GistCreate =
  gist_metadata :: dict
  expiration_date :: "string option"
  max_reads :: "int option"

record GistCreateResponse =
  gist_id :: string
  upload_params :: presigned_post

record GistResponse =
  gist_id :: string
  download_url :: "string option"
  gist_metadata :: dict
  expiration_date :: "string option"
  read_count :: int
  max_reads :: int
  version_history :: "json list option"

record Gist =
  gist_id :: string
  gist_metadata :: dict
  created_at :: datetime
  expiration_date :: "datetime option"
  read_count :: int
  max_reads :: int
  version_history :: "json list option"

text \<open>
  The table \<open>gists\<close>, keyed by its primary key, and the bucket. Failures of the
  database connection are not part of the model.  The column \<open>max_reads\<close> is
  an \<open>Integer\<close>, a 32-bit signed integer in the database, while the schema's
  \<open>max_reads\<close> is any Python \<open>int\<close>.
\<close>

definition int4 :: "int \<Rightarrow> bool" where
  "int4 n = (- 2147483648 \<le> n \<and> n \<le> 2147483647)"

record state =
  gists :: "string \<rightharpoonup> Gist"
  objects :: "string set"

text \<open>
  What one request finds around it: the \<open>storage\<close> singleton with the
  provider's behaviour during this request, the value of
  \<open>datetime.now(timezone.utc).replace(tzinfo=None)\<close>, the identifier \<open>uuid4\<close>
  draws, and the two \<open>datetime\<close> library functions the handlers call
  (\<open>fromisoformat\<close> is \<open>None\<close> where Python raises \<open>ValueError\<close>; the
  strings it accepts depend on the interpreter's version).
\<close>

record env =
  storage :: Storage
  utcnow :: datetime
  uuid4 :: string
  fromisoformat :: "string \<Rightarrow> pydatetime option"
  isoformat :: "datetime \<Rightarrow> string"

section \<open>crud.py\<close>

text \<open>Lines 10 to 15 of \<open>create_gist\<close>: the value of \<open>exp_date\<close>.\<close>

definition exp_date :: "env \<Rightarrow> string option \<Rightarrow> exn + datetime option" where
  "exp_date e expiration =
     (case expiration of
        None \<Rightarrow> Inr None
      | Some s \<Rightarrow>
          if s = [] then Inr None
          else (case fromisoformat e s of
                  None \<Rightarrow> Inl ValueError
                | Some dt \<Rightarrow>
                    (case tzinfo dt of
                       None \<Rightarrow> Inr (Some (wall dt))
                     | Some off \<Rightarrow>
                         (case astimezone_utc (wall dt) off of
                            Inl x \<Rightarrow> Inl x
                          | Inr u \<Rightarrow> Inr (Some u)))))"

text \<open>
  \<open>create_gist\<close>. The columns the constructor does not set take their defaults:
  \<open>gist_id\<close> from \<open>uuid4\<close>, \<open>created_at\<close> from the clock, \<open>read_count\<close>
  0, and \<open>max_reads\<close> 100 when the payload gave \<open>null\<close>. The insert
  raises \<open>DBAPIError\<close> when \<open>max_reads\<close> does not fit its column, and the
  primary key refuses an identifier that is already in the table; either way
  nothing is stored.
\<close>

definition create_gist ::
  "env \<Rightarrow> dict \<Rightarrow> string option \<Rightarrow> int option \<Rightarrow> state \<Rightarrow> exn + Gist \<times> state" where
  "create_gist e md expiration max_rd st =
     (case exp_date e expiration of
        Inl x \<Rightarrow> Inl x
      | Inr ed \<Rightarrow>
          (let gist = \<lparr>gist_id = uuid4 e,
                       gist_metadata = md,
                       created_at = utcnow e,
                       expiration_date = ed,
                       read_count = 0,
                       max_reads = (case max_rd of None \<Rightarrow> 100 | Some n \<Rightarrow> n),
                       version_history = None\<rparr>
           in if \<not> int4 (max_reads gist) then Inl DBAPIError
              else if gists st (gist_id gist) \<noteq> None then Inl IntegrityError
              else Inr (gist, st\<lparr>gists := (gists st)(gist_id gist \<mapsto> gist)\<rparr>)))"

definition get_gist :: "string \<Rightarrow> state \<Rightarrow> Gist option" where
  "get_gist gid st = gists st gid"

definition delete_gist :: "env \<Rightarrow> string \<Rightarrow> state \<Rightarrow> Gist option \<times> state" where
  "delete_gist e gid st =
     (case gists st gid of
        None \<Rightarrow> (None, st)
      | Some gist \<Rightarrow>
          (let st1 = st\<lparr>gists := (gists st)(gid := None)\<rparr>;
               (ok, objs) = storage_delete (storage e) (gist_id gist) (objects st1)
           in (Some gist, st1\<lparr>objects := objs\<rparr>)))"

section \<open>api.py\<close>

definition api_create_gist ::
  "env \<Rightarrow> GistCreate \<Rightarrow> state \<Rightarrow> (exn + GistCreateResponse) \<times> state" where
  "api_create_gist e payload st =
     (case create_gist e (GistCreate.gist_metadata payload)
             (GistCreate.expiration_date payload) (GistCreate.max_reads payload) st of
        Inl x \<Rightarrow> (Inl x, st)
      | Inr (gist, st1) \<Rightarrow>
          (case generate_presigned_post (storage e) (gist_id gist) 10485760 of
             None \<Rightarrow> (Inl (HTTPException 500 ''Failed to generate upload URL''), st1)
           | Some presigned \<Rightarrow>
               (Inr \<lparr>GistCreateResponse.gist_id = gist_id gist,
                     upload_params = presigned\<rparr>, st1)))"

definition expired :: "env \<Rightarrow> Gist \<Rightarrow> bool" where
  "expired e gist =
     (case expiration_date gist of None \<Rightarrow> False | Some d \<Rightarrow> d < utcnow e)"

definition api_get_gist :: "env \<Rightarrow> string \<Rightarrow> state \<Rightarrow> (exn + GistResponse) \<times> state" where
  "api_get_gist e gid st =
     (case get_gist gid st of
        None \<Rightarrow> (Inl (HTTPException 404 ''Gist not found''), st)
      | Some gist \<Rightarrow>
          if expired e gist
          then (Inl (HTTPException 410 ''Gist expired''), snd (delete_gist e gid st))
          else if read_count gist \<ge> max_reads gist
          then (Inl (HTTPException 410 ''Read limit exceeded''), snd (delete_gist e gid st))
          else
            (let gist1 = gist\<lparr>read_count := read_count gist + 1\<rparr>;
                 st1 = st\<lparr>gists := (gists st)(gid \<mapsto> gist1)\<rparr>;
                 download = generate_presigned_url (storage e) (gist_id gist1)
             in (Inr \<lparr>GistResponse.gist_id = gist_id gist1,
                       download_url = download,
                       GistResponse.gist_metadata = gist_metadata gist1,
                       GistResponse.expiration_date =
                         map_option (isoformat e) (expiration_date gist1),
                       GistResponse.read_count = read_count gist1,
                       GistResponse.max_reads = max_reads gist1,
                       GistResponse.version_history = version_history gist1\<rparr>,
                 st1)))"

definition api_delete_gist :: "env \<Rightarrow> string \<Rightarrow> state \<Rightarrow> (exn + unit) \<times> state" where
  "api_delete_gist e gid st =
     (case delete_gist e gid st of
        (None, st1) \<Rightarrow> (Inl (HTTPException 404 ''Gist not found''), st1)
      | (Some gist, st1) \<Rightarrow> (Inr (), st1))"

section \<open>Deleting while the object store cannot be reached\<close>

text \<open>
  \<open>Storage.delete\<close> catches \<open>ClientError\<close> and nothing else, and neither
  \<open>delete_gist\<close> nor \<open>api_delete_gist\<close> catches anything. The three
  functions once more, with a flag that says whether \<open>delete_object\<close> raises
  an exception that is not a \<open>ClientError\<close>; without it they are the
  functions above. In \<open>delete_gist\<close> the row is deleted and committed before
  \<open>storage.delete\<close> is called, so the exception leaves the row deleted.
\<close>

definition storage_delete_exn ::
  "bool \<Rightarrow> Storage \<Rightarrow> string \<Rightarrow> string set \<Rightarrow> exn + bool \<times> string set" where
  "storage_delete_exn raises self key objs =
     (if raises then Inl BotoCoreError else Inr (storage_delete self key objs))"

definition delete_gist_exn ::
  "bool \<Rightarrow> env \<Rightarrow> string \<Rightarrow> state \<Rightarrow> (exn + Gist option) \<times> state" where
  "delete_gist_exn raises e gid st =
     (case gists st gid of
        None \<Rightarrow> (Inr None, st)
      | Some gist \<Rightarrow>
          (let st1 = st\<lparr>gists := (gists st)(gid := None)\<rparr>
           in case storage_delete_exn raises (storage e) (gist_id gist) (objects st1) of
                Inl x \<Rightarrow> (Inl x, st1)
              | Inr (ok, objs) \<Rightarrow> (Inr (Some gist), st1\<lparr>objects := objs\<rparr>)))"

definition api_delete_gist_exn ::
  "bool \<Rightarrow> env \<Rightarrow> string \<Rightarrow> state \<Rightarrow> (exn + unit) \<times> state" where
  "api_delete_gist_exn raises e gid st =
     (case delete_gist_exn raises e gid st of
        (Inl x, st1) \<Rightarrow> (Inl x, st1)
      | (Inr None, st1) \<Rightarrow> (Inl (HTTPException 404 ''Gist not found''), st1)
      | (Inr (Some gist), st1) \<Rightarrow> (Inr (), st1))"

section \<open>The three routes, one request after another\<close>

datatype request =
    POST_gists GistCreate
  | GET_gist string
  | DELETE_gist string

datatype response =
    Created GistCreateResponse
  | Ok GistResponse
  | NoContent

fun route :: "env \<Rightarrow> request \<Rightarrow> state \<Rightarrow> (exn + response) \<times> state" where
  "route e (POST_gists payload) st = apfst (map_sum id Created) (api_create_gist e payload st)"
| "route e (GET_gist gid) st = apfst (map_sum id Ok) (api_get_gist e gid st)"
| "route e (DELETE_gist gid) st = apfst (map_sum id (\<lambda>_. NoContent)) (api_delete_gist e gid st)"

text \<open>
  The status line: the route's own code on success, the code of an
  \<open>HTTPException\<close>, and 500 for an exception nobody caught.
\<close>

fun status_code :: "exn + response \<Rightarrow> nat" where
  "status_code (Inr (Created _)) = 201"
| "status_code (Inr (Ok _)) = 200"
| "status_code (Inr NoContent) = 204"
| "status_code (Inl (HTTPException code _)) = code"
| "status_code (Inl _) = 500"

text \<open>
  A sequential execution: each request runs to its end, in its own
  surroundings, on the state its predecessor left. The result pairs every
  request with its outcome.
\<close>

fun run :: "(env \<times> request) list \<Rightarrow> state \<Rightarrow> (request \<times> (exn + response)) list \<times> state" where
  "run [] st = ([], st)"
| "run ((e, rq) # rest) st =
     (let (out, st1) = route e rq st;
          (outs, st2) = run rest st1
      in ((rq, out) # outs, st2))"

section \<open>What a caller observes\<close>

text \<open>The \<open>read_count\<close> field of a successful read response, if the outcome is one.\<close>

definition observed_read_count :: "exn + response \<Rightarrow> int option" where
  "observed_read_count out =
     (case out of Inr (Ok r) \<Rightarrow> Some (GistResponse.read_count r) | _ \<Rightarrow> None)"

text \<open>
  A request draws \<open>gid\<close> when it is a create whose \<open>uuid4\<close> call returns
  \<open>gid\<close>. Identifiers are meant to be unique, so an execution that follows a
  gist \<open>gid\<close> contains no later create that draws \<open>gid\<close> again.
\<close>

definition draws :: "string \<Rightarrow> env \<times> request \<Rightarrow> bool" where
  "draws gid x = (case snd x of POST_gists _ \<Rightarrow> uuid4 (fst x) = gid | _ \<Rightarrow> False)"

section \<open>Concrete surroundings for the examples\<close>

text \<open>
  A provider that answers every call, one that raises \<open>ClientError\<close> on every
  call, a configuration with an internal and a public endpoint, and a
  \<open>datetime\<close> library cut down to the one timestamp the examples parse: on
  every other string, \<open>''not-a-date''\<close> and \<open>''tomorrow''\<close> among them,
  \<open>fromisoformat\<close> raises \<open>ValueError\<close>, as Python does on these two.
  No example prints a timestamp other than that one.
\<close>

definition ex_s3_up :: s3_client where
  "ex_s3_up =
     \<lparr>s3_generate_presigned_post =
        (\<lambda>b k c t. Inr \<lparr>url = ''http://minio:9000/'' @ b, form_fields = [(''key'', k)]\<rparr>),
      s3_generate_presigned_url = (\<lambda>b k t. Inr (''http://minio:9000/'' @ b @ ''/'' @ k)),
      s3_delete_object = (\<lambda>b k. Inr ())\<rparr>"

definition ex_s3_down :: s3_client where
  "ex_s3_down =
     \<lparr>s3_generate_presigned_post = (\<lambda>b k c t. Inl ClientError),
      s3_generate_presigned_url = (\<lambda>b k t. Inl ClientError),
      s3_delete_object = (\<lambda>b k. Inl ClientError)\<rparr>"

definition ex_fromisoformat :: "string \<Rightarrow> pydatetime option" where
  "ex_fromisoformat s =
     (if s = ''2020-01-01T00:00:00+00:00''
      then Some \<lparr>wall = 1577836800000000, tzinfo = Some 0\<rparr> else None)"

definition ex_isoformat :: "datetime \<Rightarrow> string" where
  "ex_isoformat t = (if t = 1577836800000000 then ''2020-01-01T00:00:00'' else [])"

definition ex_env :: "s3_client \<Rightarrow> datetime \<Rightarrow> string \<Rightarrow> env" where
  "ex_env c t u =
     \<lparr>storage = \<lparr>bucket_name = ''securegist-dev'',
                  endpoint_url = Some ''http://minio:9000'',
                  public_endpoint_url = Some ''http://localhost:9000'',
                  s3_client = c\<rparr>,
      utcnow = t, uuid4 = u,
      fromisoformat = ex_fromisoformat, isoformat = ex_isoformat\<rparr>"

definition ex_gist :: "datetime option \<Rightarrow> int \<Rightarrow> int \<Rightarrow> Gist" where
  "ex_gist ed rc mr =
     \<lparr>gist_id = ''g1'', gist_metadata = [(''iv'', JStr ''test_iv'')],
      created_at = 1500000000000000, expiration_date = ed,
      read_count = rc, max_reads = mr, version_history = None\<rparr>"

definition ex_state :: "Gist \<Rightarrow> state" where
  "ex_state g = \<lparr>gists = [gist_id g \<mapsto> g], objects = {gist_id g}\<rparr>"

definition ex_empty :: state where
  "ex_empty = \<lparr>gists = Map.empty, objects = {}\<rparr>"

definition ex_payload :: "int option \<Rightarrow> GistCreate" where
  "ex_payload mr =
     \<lparr>GistCreate.gist_metadata = [(''iv'', JStr ''test_iv'')],
      GistCreate.expiration_date = None, GistCreate.max_reads = mr\<rparr>"

section \<open>Facts about the handlers\<close>

lemmas ex_defs = ex_s3_up_def ex_s3_down_def ex_env_def ex_gist_def ex_state_def ex_empty_def
  ex_fromisoformat_def ex_isoformat_def

lemmas ex_defs2 = ex_defs ex_payload_def

subsection \<open>Reading\<close>

lemma get_absent:
  "gists st gid = None \<Longrightarrow> api_get_gist e gid st = (Inl (HTTPException 404 ''Gist not found''), st)"
  by (simp add: api_get_gist_def get_gist_def)

lemma delete_gist_gists:
  "gists (snd (delete_gist e gid st)) = (gists st)(gid := None)"
  by (auto simp: delete_gist_def Let_def split: option.splits prod.splits)

lemma delete_gist_fst: "fst (delete_gist e gid st) = gists st gid"
  by (auto simp: delete_gist_def Let_def split: option.splits prod.splits)

lemma get_expired:
  "gists st gid = Some g \<Longrightarrow> expired e g \<Longrightarrow>
   api_get_gist e gid st = (Inl (HTTPException 410 ''Gist expired''), snd (delete_gist e gid st))"
  by (simp add: api_get_gist_def get_gist_def)

lemma get_exhausted:
  "gists st gid = Some g \<Longrightarrow> \<not> expired e g \<Longrightarrow> max_reads g \<le> read_count g \<Longrightarrow>
   api_get_gist e gid st =
     (Inl (HTTPException 410 ''Read limit exceeded''), snd (delete_gist e gid st))"
  by (simp add: api_get_gist_def get_gist_def)

lemma get_ok:
  "gists st gid = Some g \<Longrightarrow> \<not> expired e g \<Longrightarrow> read_count g < max_reads g \<Longrightarrow>
   api_get_gist e gid st =
     (Inr \<lparr>GistResponse.gist_id = gist_id g,
           download_url = generate_presigned_url (storage e) (gist_id g),
           GistResponse.gist_metadata = gist_metadata g,
           GistResponse.expiration_date = map_option (isoformat e) (expiration_date g),
           GistResponse.read_count = read_count g + 1,
           GistResponse.max_reads = max_reads g,
           GistResponse.version_history = version_history g\<rparr>,
      st\<lparr>gists := (gists st)(gid \<mapsto> g\<lparr>read_count := read_count g + 1\<rparr>)\<rparr>)"
  by (simp add: api_get_gist_def get_gist_def Let_def)

lemma api_get_gist_Inr:
  assumes "api_get_gist e gid st = (Inr r, st1)"
  shows "\<exists>g. gists st gid = Some g \<and> \<not> expired e g \<and> read_count g < max_reads g \<and>
             r = \<lparr>GistResponse.gist_id = gist_id g,
                  download_url = generate_presigned_url (storage e) (gist_id g),
                  GistResponse.gist_metadata = gist_metadata g,
                  GistResponse.expiration_date = map_option (isoformat e) (expiration_date g),
                  GistResponse.read_count = read_count g + 1,
                  GistResponse.max_reads = max_reads g,
                  GistResponse.version_history = version_history g\<rparr> \<and>
             st1 = st\<lparr>gists := (gists st)(gid \<mapsto> g\<lparr>read_count := read_count g + 1\<rparr>)\<rparr>"
  using assms
  by (auto simp: api_get_gist_def get_gist_def Let_def split: option.splits if_splits)

lemma api_get_gist_keeps:
  "case gists (snd (api_get_gist e k st)) gid of
     None \<Rightarrow> True
   | Some g1 \<Rightarrow> (\<exists>g. gists st gid = Some g \<and> g1 = g\<lparr>read_count := read_count g1\<rparr>)"
  by (auto simp: api_get_gist_def get_gist_def Let_def delete_gist_gists
           split: option.splits if_splits)

subsection \<open>Deleting\<close>

lemma api_delete_gist_gists:
  "gists (snd (api_delete_gist e k st)) = (gists st)(k := None)"
proof -
  have "snd (api_delete_gist e k st) = snd (delete_gist e k st)"
    by (cases "delete_gist e k st"; cases "fst (delete_gist e k st)")
       (auto simp: api_delete_gist_def)
  then show ?thesis by (simp add: delete_gist_gists)
qed

lemma api_delete_gist_fst:
  "fst (api_delete_gist e k st) =
     (case gists st k of None \<Rightarrow> Inl (HTTPException 404 ''Gist not found'') | Some g \<Rightarrow> Inr ())"
  by (auto simp: api_delete_gist_def delete_gist_def Let_def split: option.splits prod.splits)

lemma api_delete_gist_ClientError:
  assumes "gists st gid = Some g"
  shows "fst (api_delete_gist e gid st) = Inr () \<and>
         status_code (fst (route e (DELETE_gist gid) st)) = 204 \<and>
         gists (snd (api_delete_gist e gid st)) = (gists st)(gid := None) \<and>
         (s3_delete_object (s3_client (storage e)) (bucket_name (storage e)) (gist_id g)
            = Inl ClientError \<longrightarrow> objects (snd (api_delete_gist e gid st)) = objects st)"
  using assms
  by (auto simp: api_delete_gist_fst api_delete_gist_gists api_delete_gist_def
        delete_gist_def storage_delete_def Let_def split: prod.splits sum.splits)

lemma api_delete_gist_exn_False:
  "api_delete_gist_exn False e gid st = api_delete_gist e gid st"
  by (auto simp: api_delete_gist_exn_def delete_gist_exn_def storage_delete_exn_def
        api_delete_gist_def delete_gist_def Let_def split: option.splits prod.splits)

lemma api_delete_gist_exn_True:
  assumes "gists st gid = Some g"
  shows "api_delete_gist_exn True e gid st
           = (Inl BotoCoreError, st\<lparr>gists := (gists st)(gid := None)\<rparr>)"
  using assms
  by (simp add: api_delete_gist_exn_def delete_gist_exn_def storage_delete_exn_def Let_def)

subsection \<open>Creating\<close>

lemma exp_date_None [simp]: "exp_date e None = Inr None"
  by (simp add: exp_date_def)

lemma create_gist_ok:
  assumes "exp_date e ex = Inr ed" and "gists st (uuid4 e) = None"
    and "int4 (case mr of None \<Rightarrow> 100 | Some n \<Rightarrow> n)"
  shows "create_gist e md ex mr st =
     Inr (\<lparr>gist_id = uuid4 e, gist_metadata = md, created_at = utcnow e,
           expiration_date = ed, read_count = 0,
           max_reads = (case mr of None \<Rightarrow> 100 | Some n \<Rightarrow> n),
           version_history = None\<rparr>,
          st\<lparr>gists := (gists st)(uuid4 e \<mapsto>
            \<lparr>gist_id = uuid4 e, gist_metadata = md, created_at = utcnow e,
             expiration_date = ed, read_count = 0,
             max_reads = (case mr of None \<Rightarrow> 100 | Some n \<Rightarrow> n),
             version_history = None\<rparr>)\<rparr>)"
  using assms by (simp add: create_gist_def Let_def)

lemma create_gist_out_of_range:
  assumes "exp_date e ex = Inr ed" and "\<not> int4 n"
  shows "create_gist e md ex (Some n) st = Inl DBAPIError"
  using assms by (simp add: create_gist_def Let_def)

lemma create_gist_Inr:
  assumes "create_gist e md ex mr st = Inr (g, st1)"
  shows "gists st (uuid4 e) = None \<and> gist_id g = uuid4 e \<and> gist_metadata g = md \<and>
         read_count g = 0 \<and> max_reads g = (case mr of None \<Rightarrow> 100 | Some n \<Rightarrow> n) \<and>
         int4 (max_reads g) \<and>
         exp_date e ex = Inr (expiration_date g) \<and>
         st1 = st\<lparr>gists := (gists st)(uuid4 e \<mapsto> g)\<rparr>"
  using assms by (auto simp: create_gist_def Let_def split: sum.splits if_splits)

lemma create_gist_Inl:
  assumes "create_gist e md ex mr st = Inl x"
  shows "x = ValueError \<or> x = OverflowError \<or> x = DBAPIError \<or> x = IntegrityError"
  using assms
  by (auto simp: create_gist_def exp_date_def astimezone_utc_def Let_def
           split: sum.splits if_splits option.splits)

lemma api_create_gist_Inr:
  assumes "api_create_gist e p st = (Inr r, st1)"
  shows "\<exists>g. create_gist e (GistCreate.gist_metadata p) (GistCreate.expiration_date p)
               (GistCreate.max_reads p) st = Inr (g, st1) \<and>
             GistCreateResponse.gist_id r = uuid4 e"
proof -
  from assms obtain g where
    c: "create_gist e (GistCreate.gist_metadata p) (GistCreate.expiration_date p)
          (GistCreate.max_reads p) st = Inr (g, st1)"
    and r: "GistCreateResponse.gist_id r = gist_id g"
    by (auto simp: api_create_gist_def split: sum.splits option.splits)
  from create_gist_Inr [OF c] r c show ?thesis by simp
qed

lemma api_create_gist_state:
  "snd (api_create_gist e p st) = st \<or>
   (\<exists>g. gists st (uuid4 e) = None \<and> gist_id g = uuid4 e \<and>
        gist_metadata g = GistCreate.gist_metadata p \<and>
        snd (api_create_gist e p st) = st\<lparr>gists := (gists st)(uuid4 e \<mapsto> g)\<rparr>)"
  by (auto simp: api_create_gist_def split: sum.splits option.splits dest!: create_gist_Inr)

lemma api_create_gist_snd:
  assumes "exp_date e (GistCreate.expiration_date p) = Inr ed" and "gists st (uuid4 e) = None"
    and "int4 (case GistCreate.max_reads p of None \<Rightarrow> 100 | Some n \<Rightarrow> n)"
  shows "snd (api_create_gist e p st) =
     st\<lparr>gists := (gists st)(uuid4 e \<mapsto>
            \<lparr>gist_id = uuid4 e, gist_metadata = GistCreate.gist_metadata p,
             created_at = utcnow e, expiration_date = ed, read_count = 0,
             max_reads = (case GistCreate.max_reads p of None \<Rightarrow> 100 | Some n \<Rightarrow> n),
             version_history = None\<rparr>)\<rparr>"
  by (simp add: api_create_gist_def create_gist_ok [OF assms] split: option.splits)

lemma api_create_gist_keeps:
  assumes "uuid4 e \<noteq> gid"
  shows "gists (snd (api_create_gist e p st)) gid = gists st gid"
  using api_create_gist_state [of e p st] assms by auto

subsection \<open>Sequences of requests\<close>

lemma fst_run_Cons:
  "fst (run ((e, rq) # rest) st) =
     (rq, fst (route e rq st)) # fst (run rest (snd (route e rq st)))"
  by (simp add: Let_def split: prod.splits)

lemma snd_run_Cons:
  "snd (run ((e, rq) # rest) st) = snd (run rest (snd (route e rq st)))"
  by (simp add: Let_def split: prod.splits)

lemma run_invariant:
  assumes "I st"
    and "\<And>e rq s. (e, rq) \<in> set reqs \<Longrightarrow> I s \<Longrightarrow> I (snd (route e rq s))"
    and "(rq, out) \<in> set (fst (run reqs st))"
  shows "\<exists>e s. (e, rq) \<in> set reqs \<and> I s \<and> out = fst (route e rq s)"
  using assms
proof (induction reqs arbitrary: st)
  case Nil
  then show ?case by simp
next
  case (Cons a reqs)
  obtain e0 rq0 where a: "a = (e0, rq0)" by (cases a)
  from Cons.prems(3) a
  consider "(rq, out) = (rq0, fst (route e0 rq0 st))"
    | "(rq, out) \<in> set (fst (run reqs (snd (route e0 rq0 st))))"
    by (auto simp: fst_run_Cons simp del: run.simps)
  then show ?case
  proof cases
    case 1
    with a Cons.prems(1) show ?thesis by auto
  next
    case 2
    have i: "I (snd (route e0 rq0 st))"
      using Cons.prems(1,2) a by simp
    have "\<exists>e s. (e, rq) \<in> set reqs \<and> I s \<and> out = fst (route e rq s)"
      using Cons.IH [OF i _ 2] Cons.prems(2) by simp
    then show ?thesis by auto
  qed
qed

lemma run_invariant_final:
  assumes "I st"
    and "\<And>e rq s. (e, rq) \<in> set reqs \<Longrightarrow> I s \<Longrightarrow> I (snd (route e rq s))"
  shows "I (snd (run reqs st))"
  using assms
proof (induction reqs arbitrary: st)
  case Nil
  then show ?case by simp
next
  case (Cons a reqs)
  obtain e0 rq0 where a: "a = (e0, rq0)" by (cases a)
  have i: "I (snd (route e0 rq0 st))"
    using Cons.prems(1,2) a by simp
  have "I (snd (run reqs (snd (route e0 rq0 st))))"
    using Cons.IH [OF i] Cons.prems(2) by simp
  then show ?case using a by (simp add: snd_run_Cons del: run.simps)
qed

lemma route_Ok:
  assumes "fst (route e rq st) = Inr (Ok r)"
  shows "\<exists>gid. rq = GET_gist gid \<and> api_get_gist e gid st = (Inr r, snd (route e rq st))"
proof (cases rq)
  case (POST_gists p)
  with assms show ?thesis
    by (cases "api_create_gist e p st"; cases "fst (api_create_gist e p st)") auto
next
  case (GET_gist gid)
  with assms show ?thesis
    by (cases "api_get_gist e gid st"; cases "fst (api_get_gist e gid st)") auto
next
  case (DELETE_gist gid)
  with assms show ?thesis
    by (cases "api_delete_gist e gid st"; cases "fst (api_delete_gist e gid st)") auto
qed

lemma route_keeps:
  assumes "\<not> draws gid (e, rq)"
  shows "case gists (snd (route e rq st)) gid of
           None \<Rightarrow> True
         | Some g1 \<Rightarrow> (\<exists>g. gists st gid = Some g \<and> g1 = g\<lparr>read_count := read_count g1\<rparr>)"
proof (cases rq)
  case (POST_gists p)
  with assms have "uuid4 e \<noteq> gid" by (simp add: draws_def)
  from api_create_gist_keeps [OF this] POST_gists show ?thesis
    by (auto split: option.splits)
next
  case (GET_gist k)
  with api_get_gist_keeps [where e=e and k=k and st=st and gid=gid] show ?thesis by simp
next
  case (DELETE_gist k)
  then show ?thesis by (auto simp: api_delete_gist_gists split: option.splits)
qed

lemma route_absent:
  assumes "\<not> draws gid (e, rq)" and "gists st gid = None"
  shows "gists (snd (route e rq st)) gid = None"
  using route_keeps [OF assms(1), where st=st] assms(2) by (auto split: option.splits)

lemma route_metadata:
  assumes "\<not> draws gid (e, rq)"
    and "\<forall>g. gists st gid = Some g \<longrightarrow> gist_metadata g = m"
  shows "\<forall>g. gists (snd (route e rq st)) gid = Some g \<longrightarrow> gist_metadata g = m"
proof (intro allI impI)
  fix g1 assume "gists (snd (route e rq st)) gid = Some g1"
  with route_keeps [OF assms(1), where st=st] obtain g where
    "gists st gid = Some g" "g1 = g\<lparr>read_count := read_count g1\<rparr>" by auto
  with assms(2) have "gist_metadata g = m" "gist_metadata g1 = gist_metadata g"
    by (simp, metis Gist.select_convs(2) Gist.surjective Gist.update_convs(5))
  then show "gist_metadata g1 = m" by simp
qed

lemma route_GET_absent:
  "gists st gid = None \<Longrightarrow>
   fst (route e (GET_gist gid) st) = Inl (HTTPException 404 ''Gist not found'')"
  by (simp add: get_absent)

lemma route_DELETE_absent:
  "gists st gid = None \<Longrightarrow>
   fst (route e (DELETE_gist gid) st) = Inl (HTTPException 404 ''Gist not found'')"
  by (simp add: api_delete_gist_fst)

lemma route_destroys:
  assumes "rq0 = GET_gist gid \<or> rq0 = DELETE_gist gid"
    and "status_code (fst (route e0 rq0 st)) = 410 \<or> status_code (fst (route e0 rq0 st)) = 204"
  shows "gists (snd (route e0 rq0 st)) gid = None"
proof -
  from assms(1) show ?thesis
  proof
    assume g: "rq0 = GET_gist gid"
    show ?thesis
    proof (cases "gists st gid")
      case None
      with g show ?thesis by (simp add: get_absent)
    next
      case (Some a)
      show ?thesis
      proof (cases "expired e0 a \<or> max_reads a \<le> read_count a")
        case True
        with Some g show ?thesis
          by (cases "expired e0 a") (simp_all add: get_expired get_exhausted delete_gist_gists)
      next
        case False
        with Some g get_ok [of st gid a e0] assms(2) show ?thesis by simp
      qed
    qed
  next
    assume "rq0 = DELETE_gist gid"
    then show ?thesis by (simp add: api_delete_gist_gists)
  qed
qed

section \<open>The claims\<close>

text \<open>
  C1. In \<open>api_get_gist\<close> the expiration check comes before the read-count
  check, which comes before the increment, which comes before the minting of
  the download URL. For a stored gist: if its expiration date is set and
  strictly earlier than the clock, the read fails with 410 ``Gist expired'' and
  the record is deleted, whatever \<open>read_count\<close> and \<open>max_reads\<close> are; if
  it is not expired and \<open>read_count \<ge> max_reads\<close>, the read fails with 410
  ``Read limit exceeded'' and the record is deleted; otherwise the incremented
  record is what the table holds, whatever the provider answers, and the
  response carries the incremented count and the URL minted afterwards.
\<close>

theorem api_get_gist_order:
  assumes "gists st gid = Some g"
  shows "(\<forall>d. expiration_date g = Some d \<and> d < utcnow e \<longrightarrow>
            fst (api_get_gist e gid st) = Inl (HTTPException 410 ''Gist expired'') \<and>
            gists (snd (api_get_gist e gid st)) gid = None) \<and>
         (\<not> expired e g \<and> max_reads g \<le> read_count g \<longrightarrow>
            fst (api_get_gist e gid st) = Inl (HTTPException 410 ''Read limit exceeded'') \<and>
            gists (snd (api_get_gist e gid st)) gid = None) \<and>
         (\<not> expired e g \<and> read_count g < max_reads g \<longrightarrow>
            gists (snd (api_get_gist e gid st)) gid = Some (g\<lparr>read_count := read_count g + 1\<rparr>) \<and>
            (\<exists>r. fst (api_get_gist e gid st) = Inr r \<and>
                 GistResponse.read_count r = read_count g + 1 \<and>
                 download_url r = generate_presigned_url (storage e) (gist_id g)))"
proof (intro conjI allI impI)
  fix d assume d: "expiration_date g = Some d \<and> d < utcnow e"
  then have x: "expired e g" by (simp add: expired_def)
  show "fst (api_get_gist e gid st) = Inl (HTTPException 410 ''Gist expired'')"
    using get_expired [OF assms x] by simp
  show "gists (snd (api_get_gist e gid st)) gid = None"
    using get_expired [OF assms x] by (simp add: delete_gist_gists)
next
  assume h: "\<not> expired e g \<and> max_reads g \<le> read_count g"
  show "fst (api_get_gist e gid st) = Inl (HTTPException 410 ''Read limit exceeded'')"
    using get_exhausted [OF assms] h by simp
  show "gists (snd (api_get_gist e gid st)) gid = None"
    using get_exhausted [OF assms] h by (simp add: delete_gist_gists)
next
  assume h: "\<not> expired e g \<and> read_count g < max_reads g"
  show "gists (snd (api_get_gist e gid st)) gid = Some (g\<lparr>read_count := read_count g + 1\<rparr>)"
    using get_ok [OF assms] h by simp
  show "\<exists>r. fst (api_get_gist e gid st) = Inr r \<and>
                 GistResponse.read_count r = read_count g + 1 \<and>
                 download_url r = generate_presigned_url (storage e) (gist_id g)"
    using get_ok [OF assms] h by simp
qed

theorem api_get_gist_order_witness:
  "fst (api_get_gist (ex_env ex_s3_up 1600000000000000 ''u'') ''g1''
          (ex_state (ex_gist (Some 1577836800000000) 0 5)))
     = Inl (HTTPException 410 ''Gist expired'') \<and>
   fst (api_get_gist (ex_env ex_s3_up 1600000000000000 ''u'') ''g1''
          (ex_state (ex_gist None 5 5)))
     = Inl (HTTPException 410 ''Read limit exceeded'') \<and>
   gists (snd (api_get_gist (ex_env ex_s3_down 1600000000000000 ''u'') ''g1''
          (ex_state (ex_gist None 0 5)))) ''g1'' = Some (ex_gist None 1 5)"
proof -
  let ?e = "ex_env ex_s3_up 1600000000000000 ''u''"
  let ?d = "ex_env ex_s3_down 1600000000000000 ''u''"
  have a: "gists (ex_state (ex_gist ed rc mr)) ''g1'' = Some (ex_gist ed rc mr)" for ed rc mr
    by (simp add: ex_defs)
  have 1: "Gist.expiration_date (ex_gist (Some 1577836800000000) 0 5) = Some 1577836800000000 \<and>
           1577836800000000 < utcnow ?e"
    by (simp add: ex_defs)
  have 2: "\<not> expired ?e (ex_gist None 5 5) \<and>
           Gist.max_reads (ex_gist None 5 5) \<le> Gist.read_count (ex_gist None 5 5)"
    by (simp add: ex_defs expired_def)
  have 3: "\<not> expired ?d (ex_gist None 0 5) \<and>
           Gist.read_count (ex_gist None 0 5) < Gist.max_reads (ex_gist None 0 5)"
    by (simp add: ex_defs expired_def)
  have 4: "(ex_gist None 0 5)\<lparr>Gist.read_count := Gist.read_count (ex_gist None 0 5) + 1\<rparr> = ex_gist None 1 5"
    by (simp add: ex_defs)
  show ?thesis
    using api_get_gist_order [OF a, of "Some 1577836800000000" 0 5 ?e] 1
          api_get_gist_order [OF a, of None 5 5 ?e] 2
          api_get_gist_order [OF a, of None 0 5 ?d] 3 4
    by simp
qed

text \<open>
  C2. After a create with \<open>max_reads = 5\<close> and no expiration date, under a
  fresh identifier, six reads in sequence (each at its own time and with its
  own provider behaviour) have the statuses 200, 200, 200, 200, 200, 410, and
  the five successful responses carry \<open>read_count\<close> 1, 2, 3, 4, 5.
\<close>

theorem five_reads_then_gone:
  assumes "gists st (uuid4 e0) = None"
    and "GistCreate.max_reads p = Some 5"
    and "GistCreate.expiration_date p = None"
  shows "map (status_code \<circ> snd)
           (fst (run [(e1, GET_gist (uuid4 e0)), (e2, GET_gist (uuid4 e0)),
                      (e3, GET_gist (uuid4 e0)), (e4, GET_gist (uuid4 e0)),
                      (e5, GET_gist (uuid4 e0)), (e6, GET_gist (uuid4 e0))]
                     (snd (api_create_gist e0 p st))))
           = [200, 200, 200, 200, 200, 410] \<and>
         map (observed_read_count \<circ> snd)
           (fst (run [(e1, GET_gist (uuid4 e0)), (e2, GET_gist (uuid4 e0)),
                      (e3, GET_gist (uuid4 e0)), (e4, GET_gist (uuid4 e0)),
                      (e5, GET_gist (uuid4 e0)), (e6, GET_gist (uuid4 e0))]
                     (snd (api_create_gist e0 p st))))
           = [Some 1, Some 2, Some 3, Some 4, Some 5, None]"
proof -
  have ed: "exp_date e0 (GistCreate.expiration_date p) = Inr None"
    using assms(3) by simp
  have "int4 (case GistCreate.max_reads p of None \<Rightarrow> 100 | Some n \<Rightarrow> n)"
    using assms(2) by (simp add: int4_def)
  note st0 = api_create_gist_snd [OF ed assms(1) this]
  show ?thesis
    unfolding st0
    by (simp add: fst_run_Cons snd_run_Cons assms(2) api_get_gist_def get_gist_def
          expired_def Let_def observed_read_count_def delete_gist_def del: run.simps(2))
qed

theorem five_reads_then_gone_witness:
  "gists ex_empty (uuid4 (ex_env ex_s3_up 1600000000000000 ''g1'')) = None \<and>
   GistCreate.max_reads (ex_payload (Some 5)) = Some 5 \<and>
   GistCreate.expiration_date (ex_payload (Some 5)) = None \<and>
   map (status_code \<circ> snd)
     (fst (run [(ex_env ex_s3_up 1600000000000001 ''a'', GET_gist ''g1''),
                (ex_env ex_s3_down 1600000000000002 ''b'', GET_gist ''g1''),
                (ex_env ex_s3_up 1600000000000003 ''c'', GET_gist ''g1''),
                (ex_env ex_s3_up 1600000000000004 ''d'', GET_gist ''g1''),
                (ex_env ex_s3_up 1600000000000005 ''e'', GET_gist ''g1''),
                (ex_env ex_s3_up 1600000000000006 ''f'', GET_gist ''g1'')]
               (snd (api_create_gist (ex_env ex_s3_up 1600000000000000 ''g1'')
                       (ex_payload (Some 5)) ex_empty))))
     = [200, 200, 200, 200, 200, 410] \<and>
   map (observed_read_count \<circ> snd)
     (fst (run [(ex_env ex_s3_up 1600000000000001 ''a'', GET_gist ''g1''),
                (ex_env ex_s3_down 1600000000000002 ''b'', GET_gist ''g1''),
                (ex_env ex_s3_up 1600000000000003 ''c'', GET_gist ''g1''),
                (ex_env ex_s3_up 1600000000000004 ''d'', GET_gist ''g1''),
                (ex_env ex_s3_up 1600000000000005 ''e'', GET_gist ''g1''),
                (ex_env ex_s3_up 1600000000000006 ''f'', GET_gist ''g1'')]
               (snd (api_create_gist (ex_env ex_s3_up 1600000000000000 ''g1'')
                       (ex_payload (Some 5)) ex_empty))))
     = [Some 1, Some 2, Some 3, Some 4, Some 5, None]"
proof -
  have a: "gists ex_empty (uuid4 (ex_env ex_s3_up 1600000000000000 ''g1'')) = None"
    by (simp add: ex_defs2)
  have b: "GistCreate.max_reads (ex_payload (Some 5)) = Some 5"
    by (simp add: ex_defs2)
  have c: "GistCreate.expiration_date (ex_payload (Some 5)) = None"
    by (simp add: ex_defs2)
  have u: "uuid4 (ex_env ex_s3_up 1600000000000000 ''g1'') = ''g1''"
    by (simp add: ex_defs2)
  from five_reads_then_gone [OF a b c,
         of "ex_env ex_s3_up 1600000000000001 ''a''"
            "ex_env ex_s3_down 1600000000000002 ''b''"
            "ex_env ex_s3_up 1600000000000003 ''c''"
            "ex_env ex_s3_up 1600000000000004 ''d''"
            "ex_env ex_s3_up 1600000000000005 ''e''"
            "ex_env ex_s3_up 1600000000000006 ''f''"] a b c
  show ?thesis unfolding u by blast
qed

text \<open>
  C3. In every sequential execution, from any state, a successful read response
  has \<open>read_count \<le> max_reads\<close>; the response's \<open>max_reads\<close> is the
  stored gist's and its \<open>read_count\<close> is the stored one plus 1; and a read of
  a gist whose \<open>read_count\<close> has reached \<open>max_reads\<close> fails with 410 and
  deletes the record.
\<close>

theorem read_count_within_max_reads:
  "(\<forall>(rq, out) \<in> set (fst (run reqs st)).
      \<forall>r. out = Inr (Ok r) \<longrightarrow> GistResponse.read_count r \<le> GistResponse.max_reads r) \<and>
   (\<forall>g r st1. gists st gid = Some g \<and> api_get_gist e gid st = (Inr r, st1) \<longrightarrow>
      GistResponse.max_reads r = max_reads g \<and>
      GistResponse.read_count r = read_count g + 1 \<and>
      GistResponse.read_count r \<le> max_reads g) \<and>
   (\<forall>g. gists st gid = Some g \<and> max_reads g \<le> read_count g \<longrightarrow>
      (\<exists>d. fst (api_get_gist e gid st) = Inl (HTTPException 410 d)) \<and>
      gists (snd (api_get_gist e gid st)) gid = None)"
proof (intro conjI allI impI ballI)
  fix x assume x: "x \<in> set (fst (run reqs st))"
  obtain rq out where xo: "x = (rq, out)" by (cases x)
  have "\<forall>r. out = Inr (Ok r) \<longrightarrow> GistResponse.read_count r \<le> GistResponse.max_reads r"
  proof (intro allI impI)
    fix r assume r: "out = Inr (Ok r)"
    from run_invariant [of "\<lambda>_. True" st reqs rq out] x xo
    obtain e1 s where "out = fst (route e1 rq s)" by auto
    with r have "fst (route e1 rq s) = Inr (Ok r)" by simp
    from route_Ok [OF this] obtain gid1 where
      "api_get_gist e1 gid1 s = (Inr r, snd (route e1 rq s))" by auto
    from api_get_gist_Inr [OF this]
    show "GistResponse.read_count r \<le> GistResponse.max_reads r" by auto
  qed
  with xo show "case x of (rq, out) \<Rightarrow>
      \<forall>r. out = Inr (Ok r) \<longrightarrow> GistResponse.read_count r \<le> GistResponse.max_reads r"
    by simp
next
  fix g r st1
  assume h: "gists st gid = Some g \<and> api_get_gist e gid st = (Inr r, st1)"
  then have a: "api_get_gist e gid st = (Inr r, st1)" by simp
  from api_get_gist_Inr [OF a] h
  show "GistResponse.max_reads r = max_reads g"
    and "GistResponse.read_count r = read_count g + 1"
    and "GistResponse.read_count r \<le> max_reads g" by auto
next
  fix g assume h: "gists st gid = Some g \<and> max_reads g \<le> read_count g"
  show "\<exists>d. fst (api_get_gist e gid st) = Inl (HTTPException 410 d)"
    using h by (cases "expired e g") (simp_all add: get_expired get_exhausted)
  show "gists (snd (api_get_gist e gid st)) gid = None"
    using h by (cases "expired e g") (simp_all add: get_expired get_exhausted delete_gist_gists)
qed

theorem read_count_within_max_reads_witness:
  "(GET_gist ''g1'',
    Inr (Ok \<lparr>GistResponse.gist_id = ''g1'',
              download_url = None,
              GistResponse.gist_metadata = [(''iv'', JStr ''test_iv'')],
              GistResponse.expiration_date = None,
              GistResponse.read_count = 1, GistResponse.max_reads = 1,
              GistResponse.version_history = None\<rparr>))
     \<in> set (fst (run [(ex_env ex_s3_down 1600000000000000 ''u'', GET_gist ''g1''),
                       (ex_env ex_s3_down 1600000000000000 ''u'', GET_gist ''g1'')]
                      (ex_state (ex_gist None 0 1)))) \<and>
   (1::int) \<le> 1 \<and>
   gists (ex_state (ex_gist None 1 1)) ''g1'' = Some (ex_gist None 1 1) \<and>
   max_reads (ex_gist None 1 1) \<le> read_count (ex_gist None 1 1) \<and>
   (\<exists>d. fst (api_get_gist (ex_env ex_s3_down 1600000000000000 ''u'') ''g1''
               (ex_state (ex_gist None 1 1))) = Inl (HTTPException 410 d)) \<and>
   gists (snd (api_get_gist (ex_env ex_s3_down 1600000000000000 ''u'') ''g1''
               (ex_state (ex_gist None 1 1)))) ''g1'' = None"
proof -
  let ?e = "ex_env ex_s3_down 1600000000000000 ''u''"
  let ?r = "\<lparr>GistResponse.gist_id = ''g1'',
              download_url = None,
              GistResponse.gist_metadata = [(''iv'', JStr ''test_iv'')],
              GistResponse.expiration_date = None,
              GistResponse.read_count = 1, GistResponse.max_reads = 1,
              GistResponse.version_history = None\<rparr>"
  have m: "(GET_gist ''g1'', Inr (Ok ?r))
     \<in> set (fst (run [(?e, GET_gist ''g1''), (?e, GET_gist ''g1'')]
                      (ex_state (ex_gist None 0 1))))"
    by (simp add: fst_run_Cons ex_defs api_get_gist_def get_gist_def expired_def Let_def
          generate_presigned_url_def del: run.simps(2))
  have g: "gists (ex_state (ex_gist None 1 1)) ''g1'' = Some (ex_gist None 1 1)"
    and x: "max_reads (ex_gist None 1 1) \<le> read_count (ex_gist None 1 1)"
    by (simp_all add: ex_defs)
  note t = read_count_within_max_reads
             [of "[(?e, GET_gist ''g1''), (?e, GET_gist ''g1'')]" "ex_state (ex_gist None 0 1)"]
  note t2 = read_count_within_max_reads
             [of "[]" "ex_state (ex_gist None 1 1)" "''g1''" ?e]
  from t m have "GistResponse.read_count ?r \<le> GistResponse.max_reads ?r" by blast
  moreover from t2 g x have
    "(\<exists>d. fst (api_get_gist ?e ''g1'' (ex_state (ex_gist None 1 1))) = Inl (HTTPException 410 d)) \<and>
     gists (snd (api_get_gist ?e ''g1'' (ex_state (ex_gist None 1 1)))) ''g1'' = None"
    by blast
  ultimately show ?thesis using m g x by simp
qed

text \<open>
  C4. The claim says that a read whose download URL cannot be minted fails with
  status 500. The code does otherwise: with a provider that raises
  \<open>ClientError\<close>, the read of an accessible gist answers 200 with
  \<open>download_url = None\<close> and the incremented \<open>read_count\<close>, while
  \<open>api_create_gist\<close>, under the same provider, raises the 500 that the read
  path omits.
\<close>

theorem read_with_failed_grant_reports_success:
  "fst (api_get_gist (ex_env ex_s3_down 1600000000000000 ''u'') ''g1''
          (ex_state (ex_gist None 0 5)))
     = Inr \<lparr>GistResponse.gist_id = ''g1'',
              download_url = None,
              GistResponse.gist_metadata = [(''iv'', JStr ''test_iv'')],
              GistResponse.expiration_date = None,
              GistResponse.read_count = 1, GistResponse.max_reads = 5,
              GistResponse.version_history = None\<rparr> \<and>
   status_code (fst (route (ex_env ex_s3_down 1600000000000000 ''u'') (GET_gist ''g1'')
          (ex_state (ex_gist None 0 5)))) = 200 \<and>
   fst (api_create_gist (ex_env ex_s3_down 1600000000000000 ''g2'')
          \<lparr>GistCreate.gist_metadata = [], GistCreate.expiration_date = None,
           GistCreate.max_reads = Some 5\<rparr> (ex_state (ex_gist None 0 5)))
     = Inl (HTTPException 500 ''Failed to generate upload URL'')"
  by (simp add: ex_defs api_get_gist_def get_gist_def expired_def Let_def
        generate_presigned_url_def api_create_gist_def create_gist_def int4_def
        generate_presigned_post_def)

text \<open>
  C5, as stated, fails: a create whose \<open>expiration_date\<close> is
  \<open>''not-a-date''\<close> ends in an uncaught \<open>ValueError\<close>, and its status is
  not 400.
\<close>

theorem unparseable_expiration_is_not_400:
  "fst (api_create_gist (ex_env ex_s3_up 1600000000000000 ''g2'')
          \<lparr>GistCreate.gist_metadata = [], GistCreate.expiration_date = Some ''not-a-date'',
           GistCreate.max_reads = Some 5\<rparr> ex_empty) = Inl ValueError \<and>
   status_code (fst (route (ex_env ex_s3_up 1600000000000000 ''g2'')
          (POST_gists \<lparr>GistCreate.gist_metadata = [],
             GistCreate.expiration_date = Some ''not-a-date'',
             GistCreate.max_reads = Some 5\<rparr>) ex_empty)) \<noteq> 400"
  by (simp add: ex_defs api_create_gist_def create_gist_def exp_date_def)

text \<open>
  C5, amended. A create whose \<open>expiration_date\<close> is a non-empty string that
  \<open>fromisoformat\<close> rejects raises \<open>ValueError\<close>, which no handler catches
  (status 500), and leaves the state as it was: no gist record is persisted.
\<close>

theorem unparseable_expiration_raises:
  assumes "GistCreate.expiration_date p = Some s" and "s \<noteq> []" and "fromisoformat e s = None"
  shows "api_create_gist e p st = (Inl ValueError, st) \<and>
         status_code (fst (route e (POST_gists p) st)) = 500"
  using assms by (simp add: api_create_gist_def create_gist_def exp_date_def)

theorem unparseable_expiration_raises_witness:
  "fromisoformat (ex_env ex_s3_up 1600000000000000 ''g2'') ''tomorrow'' = None \<and>
   api_create_gist (ex_env ex_s3_up 1600000000000000 ''g2'')
          \<lparr>GistCreate.gist_metadata = [], GistCreate.expiration_date = Some ''tomorrow'',
           GistCreate.max_reads = None\<rparr> ex_empty = (Inl ValueError, ex_empty) \<and>
   status_code (fst (route (ex_env ex_s3_up 1600000000000000 ''g2'')
          (POST_gists \<lparr>GistCreate.gist_metadata = [],
             GistCreate.expiration_date = Some ''tomorrow'',
             GistCreate.max_reads = None\<rparr>) ex_empty)) = 500"
proof -
  have a: "fromisoformat (ex_env ex_s3_up 1600000000000000 ''g2'') ''tomorrow'' = None"
    by (simp add: ex_defs)
  from unparseable_expiration_raises [OF _ _ a, of
         "\<lparr>GistCreate.gist_metadata = [], GistCreate.expiration_date = Some ''tomorrow'',
           GistCreate.max_reads = None\<rparr>" ex_empty] a
  show ?thesis by simp
qed

text \<open>
  C6. Once a read has answered 410 or a delete has answered 204 for \<open>gid\<close>,
  the record is gone: in every later sequence of requests in which no create
  draws \<open>gid\<close> again, each read and each delete of \<open>gid\<close> answers 404
  ``Gist not found'', and the record is still absent at the end.
\<close>

theorem destroyed_is_not_found_ever_after:
  assumes "rq0 = GET_gist gid \<or> rq0 = DELETE_gist gid"
    and "status_code (fst (route e0 rq0 st)) = 410 \<or> status_code (fst (route e0 rq0 st)) = 204"
    and "\<forall>x \<in> set reqs. \<not> draws gid x"
  shows "(\<forall>(rq, out) \<in> set (fst (run reqs (snd (route e0 rq0 st)))).
            rq = GET_gist gid \<or> rq = DELETE_gist gid \<longrightarrow>
            out = Inl (HTTPException 404 ''Gist not found'') \<and> status_code out = 404) \<and>
         gists (snd (run reqs (snd (route e0 rq0 st)))) gid = None"
proof -
  let ?I = "\<lambda>s. gists s gid = None"
  have i0: "?I (snd (route e0 rq0 st))"
    by (rule route_destroys [OF assms(1,2)])
  have step: "\<And>e rq s. (e, rq) \<in> set reqs \<Longrightarrow> ?I s \<Longrightarrow> ?I (snd (route e rq s))"
    using assms(3) route_absent by blast
  have "\<And>rq out. (rq, out) \<in> set (fst (run reqs (snd (route e0 rq0 st)))) \<Longrightarrow>
          rq = GET_gist gid \<or> rq = DELETE_gist gid \<Longrightarrow>
          out = Inl (HTTPException 404 ''Gist not found'') \<and> status_code out = 404"
  proof -
    fix rq out
    assume m: "(rq, out) \<in> set (fst (run reqs (snd (route e0 rq0 st))))"
      and t: "rq = GET_gist gid \<or> rq = DELETE_gist gid"
    from run_invariant [of ?I, OF i0 step m]
    obtain e s where "gists s gid = None" "out = fst (route e rq s)" by blast
    with t have "out = Inl (HTTPException 404 ''Gist not found'')"
      using route_GET_absent route_DELETE_absent by blast
    then show "out = Inl (HTTPException 404 ''Gist not found'') \<and> status_code out = 404"
      by simp
  qed
  moreover have "gists (snd (run reqs (snd (route e0 rq0 st)))) gid = None"
    by (rule run_invariant_final [of ?I, OF i0 step])
  ultimately show ?thesis by blast
qed

theorem destroyed_is_not_found_ever_after_witness:
  "status_code (fst (route (ex_env ex_s3_down 1600000000000000 ''u'') (DELETE_gist ''g1'')
                      (ex_state (ex_gist None 0 5)))) = 204 \<and>
   list_all (\<lambda>x. \<not> draws ''g1'' x)
     [(ex_env ex_s3_up 1600000000000001 ''u'', GET_gist ''g1''),
      (ex_env ex_s3_up 1600000000000002 ''g2'', POST_gists (ex_payload (Some 5))),
      (ex_env ex_s3_up 1600000000000003 ''u'', DELETE_gist ''g1'')] \<and>
   map snd (filter (\<lambda>(rq, out). rq = GET_gist ''g1'' \<or> rq = DELETE_gist ''g1'')
     (fst (run [(ex_env ex_s3_up 1600000000000001 ''u'', GET_gist ''g1''),
                (ex_env ex_s3_up 1600000000000002 ''g2'', POST_gists (ex_payload (Some 5))),
                (ex_env ex_s3_up 1600000000000003 ''u'', DELETE_gist ''g1'')]
              (snd (route (ex_env ex_s3_down 1600000000000000 ''u'') (DELETE_gist ''g1'')
                      (ex_state (ex_gist None 0 5)))))))
     = [Inl (HTTPException 404 ''Gist not found''), Inl (HTTPException 404 ''Gist not found'')] \<and>
   gists (snd (run [(ex_env ex_s3_up 1600000000000001 ''u'', GET_gist ''g1''),
               (ex_env ex_s3_up 1600000000000002 ''g2'', POST_gists (ex_payload (Some 5))),
               (ex_env ex_s3_up 1600000000000003 ''u'', DELETE_gist ''g1'')]
              (snd (route (ex_env ex_s3_down 1600000000000000 ''u'') (DELETE_gist ''g1'')
                      (ex_state (ex_gist None 0 5)))))) ''g1'' = None"
proof -
  define e0 where "e0 = ex_env ex_s3_down 1600000000000000 ''u''"
  define e1 where "e1 = ex_env ex_s3_up 1600000000000001 ''u''"
  define e2 where "e2 = ex_env ex_s3_up 1600000000000002 ''g2''"
  define e3 where "e3 = ex_env ex_s3_up 1600000000000003 ''u''"
  define st where "st = ex_state (ex_gist None 0 5)"
  define p where "p = ex_payload (Some 5)"
  define reqs where "reqs = [(e1, GET_gist ''g1''), (e2, POST_gists p), (e3, DELETE_gist ''g1'')]"
  define s0 where "s0 = snd (route e0 (DELETE_gist ''g1'') st)"
  have a: "DELETE_gist ''g1'' = GET_gist ''g1'' \<or> DELETE_gist ''g1'' = DELETE_gist ''g1''"
    by simp
  have g: "gists st ''g1'' = Some (ex_gist None 0 5)"
    by (simp add: st_def ex_state_def ex_gist_def)
  have s: "status_code (fst (route e0 (DELETE_gist ''g1'') st)) = 204"
    by (simp add: api_delete_gist_fst g)
  then have b: "status_code (fst (route e0 (DELETE_gist ''g1'') st)) = 410 \<or>
                status_code (fst (route e0 (DELETE_gist ''g1'') st)) = 204"
    by simp
  have u: "uuid4 e2 = ''g2''" by (simp add: e2_def ex_env_def)
  have c: "\<forall>x \<in> set reqs. \<not> draws ''g1'' x"
    by (simp add: reqs_def draws_def u)
  note t = destroyed_is_not_found_ever_after [OF a b c]
  define o1 where "o1 = fst (route e1 (GET_gist ''g1'') s0)"
  define s1 where "s1 = snd (route e1 (GET_gist ''g1'') s0)"
  define o2 where "o2 = fst (route e2 (POST_gists p) s1)"
  define s2 where "s2 = snd (route e2 (POST_gists p) s1)"
  define o3 where "o3 = fst (route e3 (DELETE_gist ''g1'') s2)"
  have outs: "fst (run reqs s0) =
     [(GET_gist ''g1'', o1), (POST_gists p, o2), (DELETE_gist ''g1'', o3)]"
    unfolding reqs_def fst_run_Cons o1_def o2_def o3_def s1_def s2_def by simp
  from t have all: "\<forall>(rq, out) \<in> set (fst (run reqs s0)).
            rq = GET_gist ''g1'' \<or> rq = DELETE_gist ''g1'' \<longrightarrow>
            out = Inl (HTTPException 404 ''Gist not found'') \<and> status_code out = 404"
    and fin: "gists (snd (run reqs s0)) ''g1'' = None"
    unfolding s0_def by simp_all
  from all have o: "o1 = Inl (HTTPException 404 ''Gist not found'')"
    "o3 = Inl (HTTPException 404 ''Gist not found'')"
    unfolding outs by simp_all
  have f: "map snd (filter (\<lambda>(rq, out). rq = GET_gist ''g1'' \<or> rq = DELETE_gist ''g1'')
             (fst (run reqs s0)))
     = [Inl (HTTPException 404 ''Gist not found''), Inl (HTTPException 404 ''Gist not found'')]"
    unfolding outs by (simp add: o)
  from c have c': "list_all (\<lambda>x. \<not> draws ''g1'' x) reqs"
    by (simp add: list_all_iff)
  from s c' f fin show ?thesis
    unfolding reqs_def s0_def e0_def e1_def e2_def e3_def st_def p_def by simp
qed

text \<open>
  C7. The claim says that deleting an existing gist answers 204 whatever the
  deletion of the blob does. The code does so when \<open>delete_object\<close> returns
  or raises \<open>ClientError\<close>, which \<open>Storage.delete\<close> catches. When
  \<open>delete_object\<close> raises any other exception, nothing catches it: the
  request ends with status 500, after the row has been deleted, and the blob
  remains.
\<close>

theorem delete_with_store_unreachable_reports_500:
  "fst (api_delete_gist_exn True (ex_env ex_s3_up 1600000000000000 ''u'') ''g1''
          (ex_state (ex_gist None 0 5))) = Inl BotoCoreError \<and>
   status_code (map_sum id (\<lambda>_. NoContent)
     (fst (api_delete_gist_exn True (ex_env ex_s3_up 1600000000000000 ''u'') ''g1''
          (ex_state (ex_gist None 0 5))))) = 500 \<and>
   gists (snd (api_delete_gist_exn True (ex_env ex_s3_up 1600000000000000 ''u'') ''g1''
          (ex_state (ex_gist None 0 5)))) ''g1'' = None \<and>
   objects (snd (api_delete_gist_exn True (ex_env ex_s3_up 1600000000000000 ''u'') ''g1''
          (ex_state (ex_gist None 0 5)))) = {''g1''} \<and>
   fst (api_delete_gist_exn False (ex_env ex_s3_down 1600000000000000 ''u'') ''g1''
          (ex_state (ex_gist None 0 5))) = Inr () \<and>
   gists (snd (api_delete_gist_exn False (ex_env ex_s3_down 1600000000000000 ''u'') ''g1''
          (ex_state (ex_gist None 0 5)))) ''g1'' = None"
  by (simp add: ex_defs api_delete_gist_exn_def delete_gist_exn_def storage_delete_exn_def
        storage_delete_def Let_def)

text \<open>
  C8. After a successful create, in every later sequence of requests in which no
  create draws the gist's identifier again, each successful read of the gist
  returns the \<open>gist_metadata\<close> the create was given.
\<close>

theorem metadata_round_trip:
  assumes "api_create_gist e0 p st = (Inr c, st0)"
    and "\<forall>x \<in> set reqs. \<not> draws (GistCreateResponse.gist_id c) x"
  shows "\<forall>(rq, out) \<in> set (fst (run reqs st0)).
           \<forall>r. rq = GET_gist (GistCreateResponse.gist_id c) \<and> out = Inr (Ok r) \<longrightarrow>
               GistResponse.gist_metadata r = GistCreate.gist_metadata p"
proof -
  let ?gid = "GistCreateResponse.gist_id c"
  let ?m = "GistCreate.gist_metadata p"
  let ?I = "\<lambda>s. \<forall>g. gists s ?gid = Some g \<longrightarrow> gist_metadata g = ?m"
  from api_create_gist_Inr [OF assms(1)] obtain g where
    c: "create_gist e0 ?m (GistCreate.expiration_date p) (GistCreate.max_reads p) st
          = Inr (g, st0)"
    and u: "?gid = uuid4 e0" by auto
  have i0: "?I st0"
    using create_gist_Inr [OF c] u by simp
  have step: "\<And>e rq s. (e, rq) \<in> set reqs \<Longrightarrow> ?I s \<Longrightarrow> ?I (snd (route e rq s))"
    using assms(2) route_metadata by blast
  have "\<And>rq out r. (rq, out) \<in> set (fst (run reqs st0)) \<Longrightarrow>
          rq = GET_gist ?gid \<and> out = Inr (Ok r) \<Longrightarrow> GistResponse.gist_metadata r = ?m"
  proof -
    fix rq out r
    assume m: "(rq, out) \<in> set (fst (run reqs st0))"
      and t: "rq = GET_gist ?gid \<and> out = Inr (Ok r)"
    from run_invariant [of ?I, OF i0 step m]
    obtain e s where s: "?I s" and o: "out = fst (route e rq s)" by blast
    from o t have "fst (route e rq s) = Inr (Ok r)" by simp
    from route_Ok [OF this] t
    have "api_get_gist e ?gid s = (Inr r, snd (route e rq s))" by auto
    from api_get_gist_Inr [OF this] s
    show "GistResponse.gist_metadata r = ?m" by auto
  qed
  then show ?thesis by blast
qed

theorem metadata_round_trip_witness:
  "api_create_gist (ex_env ex_s3_up 1600000000000000 ''g1'') (ex_payload (Some 5)) ex_empty
     = (Inr \<lparr>GistCreateResponse.gist_id = ''g1'',
              upload_params = \<lparr>url = ''http://localhost:9000/securegist-dev'',
                                form_fields = [(''key'', ''g1'')]\<rparr>\<rparr>,
        ex_empty\<lparr>gists := [''g1'' \<mapsto> (ex_gist None 0 5)\<lparr>created_at := 1600000000000000\<rparr>]\<rparr>) \<and>
   (GET_gist ''g1'',
    Inr (Ok \<lparr>GistResponse.gist_id = ''g1'',
              download_url = None,
              GistResponse.gist_metadata = [(''iv'', JStr ''test_iv'')],
              GistResponse.expiration_date = None,
              GistResponse.read_count = 1, GistResponse.max_reads = 5,
              GistResponse.version_history = None\<rparr>))
     \<in> set (fst (run [(ex_env ex_s3_down 1600000000000001 ''u'', GET_gist ''g1''),
                       (ex_env ex_s3_up 1600000000000002 ''g2'', POST_gists (ex_payload None))]
                 (ex_empty\<lparr>gists :=
                    [''g1'' \<mapsto> (ex_gist None 0 5)\<lparr>created_at := 1600000000000000\<rparr>]\<rparr>))) \<and>
   GistCreate.gist_metadata (ex_payload (Some 5)) = [(''iv'', JStr ''test_iv'')]"
proof -
  let ?e0 = "ex_env ex_s3_up 1600000000000000 ''g1''"
  let ?c = "\<lparr>GistCreateResponse.gist_id = ''g1'',
              upload_params = \<lparr>url = ''http://localhost:9000/securegist-dev'',
                                form_fields = [(''key'', ''g1'')]\<rparr>\<rparr>"
  let ?st0 = "ex_empty\<lparr>gists := [''g1'' \<mapsto> (ex_gist None 0 5)\<lparr>created_at := 1600000000000000\<rparr>]\<rparr>"
  let ?reqs = "[(ex_env ex_s3_down 1600000000000001 ''u'', GET_gist ''g1''),
                (ex_env ex_s3_up 1600000000000002 ''g2'', POST_gists (ex_payload None))]"
  let ?r = "\<lparr>GistResponse.gist_id = ''g1'',
              download_url = None,
              GistResponse.gist_metadata = [(''iv'', JStr ''test_iv'')],
              GistResponse.expiration_date = None,
              GistResponse.read_count = 1, GistResponse.max_reads = 5,
              GistResponse.version_history = None\<rparr>"
  have a: "api_create_gist ?e0 (ex_payload (Some 5)) ex_empty = (Inr ?c, ?st0)"
    by (simp add: ex_defs2 api_create_gist_def create_gist_def Let_def int4_def
          generate_presigned_post_def replace_endpoint_def str_replace.simps)
  have b: "\<forall>x \<in> set ?reqs. \<not> draws (GistCreateResponse.gist_id ?c) x"
    by (simp add: draws_def ex_defs2)
  have m: "(GET_gist ''g1'', Inr (Ok ?r)) \<in> set (fst (run ?reqs ?st0))"
    by (simp add: fst_run_Cons ex_defs2 api_get_gist_def get_gist_def expired_def Let_def
          generate_presigned_url_def del: run.simps(2))
  from metadata_round_trip [OF a b] m
  have "GistResponse.gist_metadata ?r = GistCreate.gist_metadata (ex_payload (Some 5))"
    by fastforce
  with a m show ?thesis by simp
qed

text \<open>
  C9. A create with \<open>max_reads = n \<le> 0\<close>, \<open>n\<close> within the range of the
  column, whose expiration date parses, whose identifier is fresh and whose
  upload grant is minted succeeds and stores \<open>read_count = 0\<close> and
  \<open>max_reads = n\<close>; the first read of that gist, at any time and under any
  provider, fails with 410 and deletes the record.
\<close>

theorem nonpositive_max_reads_gone_on_first_read:
  assumes "GistCreate.max_reads p = Some n" and "- 2147483648 \<le> n" and "n \<le> 0"
    and "exp_date e0 (GistCreate.expiration_date p) = Inr ed"
    and "gists st (uuid4 e0) = None"
    and "generate_presigned_post (storage e0) (uuid4 e0) 10485760 = Some pp"
  shows "fst (api_create_gist e0 p st)
           = Inr \<lparr>GistCreateResponse.gist_id = uuid4 e0, upload_params = pp\<rparr> \<and>
         (\<exists>g. gists (snd (api_create_gist e0 p st)) (uuid4 e0) = Some g \<and>
              read_count g = 0 \<and> max_reads g = n) \<and>
         (\<exists>d. fst (api_get_gist e (uuid4 e0) (snd (api_create_gist e0 p st)))
                = Inl (HTTPException 410 d)) \<and>
         gists (snd (api_get_gist e (uuid4 e0) (snd (api_create_gist e0 p st)))) (uuid4 e0) = None"
proof -
  let ?g = "\<lparr>gist_id = uuid4 e0, gist_metadata = GistCreate.gist_metadata p,
             created_at = utcnow e0, expiration_date = ed, read_count = 0,
             max_reads = n, version_history = None\<rparr>"
  have s: "snd (api_create_gist e0 p st) = st\<lparr>gists := (gists st)(uuid4 e0 \<mapsto> ?g)\<rparr>"
    using api_create_gist_snd [OF assms(4,5)] assms(1,2,3) by (simp add: int4_def)
  have f: "fst (api_create_gist e0 p st)
           = Inr \<lparr>GistCreateResponse.gist_id = uuid4 e0, upload_params = pp\<rparr>"
    using assms by (simp add: api_create_gist_def create_gist_ok [OF assms(4,5)] int4_def)
  have l: "gists (snd (api_create_gist e0 p st)) (uuid4 e0) = Some ?g"
    by (simp add: s)
  have x: "max_reads ?g \<le> read_count ?g" using assms(3) by simp
  have "\<exists>d. fst (api_get_gist e (uuid4 e0) (snd (api_create_gist e0 p st)))
                = Inl (HTTPException 410 d)"
    using l x by (cases "expired e ?g") (simp_all add: get_expired get_exhausted)
  moreover have "gists (snd (api_get_gist e (uuid4 e0) (snd (api_create_gist e0 p st))))
                   (uuid4 e0) = None"
    using l x
    by (cases "expired e ?g") (simp_all add: get_expired get_exhausted delete_gist_gists)
  ultimately show ?thesis using f l by simp
qed

theorem nonpositive_max_reads_gone_on_first_read_witness:
  "GistCreate.max_reads (ex_payload (Some (- 3))) = Some (- 3) \<and>
   (- 2147483648 :: int) \<le> - 3 \<and> (- 3 :: int) \<le> 0 \<and>
   gists ex_empty ''g1'' = None \<and>
   fst (api_create_gist (ex_env ex_s3_up 1600000000000000 ''g1'') (ex_payload (Some (- 3)))
          ex_empty)
     = Inr \<lparr>GistCreateResponse.gist_id = ''g1'',
             upload_params = \<lparr>url = ''http://localhost:9000/securegist-dev'',
                               form_fields = [(''key'', ''g1'')]\<rparr>\<rparr> \<and>
   (\<exists>d. fst (api_get_gist (ex_env ex_s3_up 1600000000000001 ''u'') ''g1''
          (snd (api_create_gist (ex_env ex_s3_up 1600000000000000 ''g1'')
                  (ex_payload (Some (- 3))) ex_empty))) = Inl (HTTPException 410 d)) \<and>
   gists (snd (api_get_gist (ex_env ex_s3_up 1600000000000001 ''u'') ''g1''
          (snd (api_create_gist (ex_env ex_s3_up 1600000000000000 ''g1'')
                  (ex_payload (Some (- 3))) ex_empty)))) ''g1'' = None"
proof -
  let ?e0 = "ex_env ex_s3_up 1600000000000000 ''g1''"
  let ?pp = "\<lparr>url = ''http://localhost:9000/securegist-dev'',
              form_fields = [(''key'', ''g1'')]\<rparr>"
  have a: "GistCreate.max_reads (ex_payload (Some (- 3))) = Some (- 3)"
    and r: "(- 2147483648 :: int) \<le> - 3"
    and b: "(- 3 :: int) \<le> 0"
    and c: "exp_date ?e0 (GistCreate.expiration_date (ex_payload (Some (- 3)))) = Inr None"
    and d: "gists ex_empty (uuid4 ?e0) = None"
    by (simp_all add: ex_defs2)
  have e: "generate_presigned_post (storage ?e0) (uuid4 ?e0) 10485760 = Some ?pp"
    by (simp add: ex_defs2 generate_presigned_post_def replace_endpoint_def str_replace.simps)
  have u: "uuid4 ?e0 = ''g1''" by (simp add: ex_defs2)
  from nonpositive_max_reads_gone_on_first_read
         [OF a r b c d e, of "ex_env ex_s3_up 1600000000000001 ''u''"] a r b d
  show ?thesis unfolding u by simp
qed

text \<open>
  C10. A successful read changes the \<open>read_count\<close> of the gist it reads and
  nothing else: the record's other six fields, every other record and the
  bucket are as before.
\<close>

theorem read_changes_only_read_count:
  assumes "api_get_gist e gid st = (Inr r, st1)"
  shows "\<exists>g g1. gists st gid = Some g \<and> gists st1 gid = Some g1 \<and>
           read_count g1 = read_count g + 1 \<and>
           gist_id g1 = gist_id g \<and>
           gist_metadata g1 = gist_metadata g \<and>
           created_at g1 = created_at g \<and>
           expiration_date g1 = expiration_date g \<and>
           max_reads g1 = max_reads g \<and>
           version_history g1 = version_history g \<and>
           (\<forall>k. k \<noteq> gid \<longrightarrow> gists st1 k = gists st k) \<and>
           objects st1 = objects st"
  using api_get_gist_Inr [OF assms] by auto

theorem read_changes_only_read_count_witness:
  "api_get_gist (ex_env ex_s3_up 1600000000000000 ''u'') ''g1'' (ex_state (ex_gist None 0 5))
     = (Inr \<lparr>GistResponse.gist_id = ''g1'',
              download_url = Some ''http://localhost:9000/securegist-dev/g1'',
              GistResponse.gist_metadata = [(''iv'', JStr ''test_iv'')],
              GistResponse.expiration_date = None,
              GistResponse.read_count = 1, GistResponse.max_reads = 5,
              GistResponse.version_history = None\<rparr>,
        (ex_state (ex_gist None 0 5))\<lparr>gists := [''g1'' \<mapsto> ex_gist None 1 5]\<rparr>) \<and>
   (\<exists>g1. gists ((ex_state (ex_gist None 0 5))\<lparr>gists := [''g1'' \<mapsto> ex_gist None 1 5]\<rparr>) ''g1''
            = Some g1 \<and>
         read_count g1 = 1 \<and> gist_metadata g1 = [(''iv'', JStr ''test_iv'')] \<and>
         created_at g1 = 1500000000000000 \<and> max_reads g1 = 5)"
proof -
  let ?e = "ex_env ex_s3_up 1600000000000000 ''u''"
  let ?st = "ex_state (ex_gist None 0 5)"
  let ?r = "\<lparr>GistResponse.gist_id = ''g1'',
              download_url = Some ''http://localhost:9000/securegist-dev/g1'',
              GistResponse.gist_metadata = [(''iv'', JStr ''test_iv'')],
              GistResponse.expiration_date = None,
              GistResponse.read_count = 1, GistResponse.max_reads = 5,
              GistResponse.version_history = None\<rparr>"
  have a: "api_get_gist ?e ''g1'' ?st = (Inr ?r, ?st\<lparr>gists := [''g1'' \<mapsto> ex_gist None 1 5]\<rparr>)"
    by (simp add: ex_defs api_get_gist_def get_gist_def expired_def Let_def
          generate_presigned_url_def replace_endpoint_def str_replace.simps)
  from read_changes_only_read_count [OF a] a show ?thesis
    by (auto simp: ex_defs)
qed

end
